theory Spec2Isabelle
  imports Main "HOL-Library.Sublist"
begin

section \<open>Data model\<close>

text \<open>
  The development covers \<^verbatim>\<open>setupSocketHandlers\<close>, \<^verbatim>\<open>processModelsInSequence\<close> and
  \<^verbatim>\<open>processModel\<close> of the socket service, together with the \<^verbatim>\<open>models\<close> section of
  the configuration module.

  JavaScript strings are modelled as \<^typ>\<open>string\<close>; a \<^typ>\<open>char\<close> stands for a code unit
  in the range 0..255, so code units above U+00FF are outside the model.
\<close>

datatype role = User | Assistant

text \<open>
  A transcript entry. The user entry is the object \<^verbatim>\<open>{role, content}\<close>, which has no
  \<^verbatim>\<open>modelId\<close> property; the assistant entry is \<^verbatim>\<open>{role, modelId, content}\<close>.
\<close>

record message =
  role :: role
  modelId :: "string option"
  content :: string

text \<open>
  One entry of \<^verbatim>\<open>config.models\<close>: the backend model reference (\<^verbatim>\<open>modelId\<close> in the
  source; renamed here because the transcript entry has a field of the same name) and the
  generation parameters. The parameters are only handed on to the generator, so their type
  is left open.
\<close>

record 'p model_config =
  cfg_modelId :: string
  parameters :: 'p

record 'p config_models =
  deepseek :: "'p model_config"
  nova :: "'p model_config"

text \<open>
  A model descriptor of the list built in \<^verbatim>\<open>processModelsInSequence\<close>: the fields
  \<^verbatim>\<open>id\<close>, \<^verbatim>\<open>config\<close> and \<^verbatim>\<open>order\<close>.
\<close>

record 'p model =
  model_id :: string
  model_cfg :: "'p model_config"
  model_order :: nat

text \<open>
  The events written to the socket: \<^verbatim>\<open>error {code, message}\<close>,
  \<^verbatim>\<open>receive_message {modelId, message, isComplete, sessionId, order}\<close>,
  \<^verbatim>\<open>model_complete {modelId, sessionId, order}\<close> and
  \<^verbatim>\<open>all_responses_complete {sessionId}\<close>.
\<close>

datatype event =
    ErrorEvent string string
  | ReceiveMessage string string bool string nat
  | ModelComplete string string nat
  | AllResponsesComplete string

text \<open>
  A thrown error object; only its \<^verbatim>\<open>message\<close> property is read, and it may be absent.
  The values \<^verbatim>\<open>undefined\<close> and \<^verbatim>\<open>null\<close>, on which reading a property throws in
  turn, are not error objects: a generator that fails does so with an error object, and a
  throw of one of those two values is considered apart, as \<open>Nullish\<close>, in the section
  on promises.
\<close>

datatype js_error = JsError (err_message: "string option")

datatype thrown = ErrorObject js_error | Nullish

text \<open>
  The console: \<^verbatim>\<open>console.warn(text)\<close> and \<^verbatim>\<open>console.error(text, error)\<close>, the
  latter with an error object or with \<^verbatim>\<open>undefined\<close>/\<^verbatim>\<open>null\<close>.
\<close>

datatype log_entry =
    ConsoleWarn string
  | ConsoleError string js_error
  | ConsoleErrorNullish string

text \<open>
  The payload of the inbound \<^verbatim>\<open>send_message\<close> event. The field \<^verbatim>\<open>message\<close> of the
  source is \<open>data_message\<close> here.
\<close>

record send_message_data =
  data_message :: string
  sessionId :: string

text \<open>
  What one call of the external \<^verbatim>\<open>generateStreamingResponse\<close> does: it hands a finite
  sequence of fragments to the chunk callback and then either returns a value (a string,
  or \<open>None\<close> for \<^verbatim>\<open>undefined\<close>/\<^verbatim>\<open>null\<close>) or throws.
\<close>

datatype gen_result = Returned "string option" | Threw js_error

type_synonym 'p generator = "string \<Rightarrow> message list \<Rightarrow> 'p \<Rightarrow> string list \<times> gen_result"

text \<open>
  Everything the handler can change: the session store, the events emitted on the socket,
  the console, and a record of the calls made to the generator (model reference, transcript
  and parameters of each call, in call order).
\<close>

record 'p world =
  sessions :: "string \<rightharpoonup> message list"
  emitted :: "event list"
  console :: "log_entry list"
  invocations :: "(string \<times> message list \<times> 'p) list"

section \<open>Session store\<close>

text \<open>
  The module \<^verbatim>\<open>../models/Session\<close> is not part of the sources; its three operations
  follow section 4.1 of the specification. A session is represented by its message
  sequence; the timestamps play no part here.
\<close>

text \<open>
  Modelled from the spec: \<^verbatim>\<open>Session.getById\<close>, which finds the session of an identifier
  or reports that there is none.
\<close>

definition getById :: "'p world \<Rightarrow> string \<Rightarrow> message list option" where
  "getById w sid = sessions w sid"

text \<open>
  Modelled from the spec: \<^verbatim>\<open>Session.addMessage\<close>, which appends to the message sequence
  of the session. It is only called for a session that exists; for any other identifier the
  store is left as it is.
\<close>

definition addMessage :: "string \<Rightarrow> message \<Rightarrow> 'p world \<Rightarrow> 'p world" where
  "addMessage sid m w =
     (case sessions w sid of
        None \<Rightarrow> w
      | Some h \<Rightarrow> w\<lparr>sessions := (sessions w)(sid \<mapsto> h @ [m])\<rparr>)"

text \<open>
  Modelled from the spec: \<^verbatim>\<open>Session.getHistory\<close>, which returns a snapshot of the message
  sequence. The list it returns is not the stored one: a later \<^verbatim>\<open>push\<close> on it leaves
  the store alone, and a later \<^verbatim>\<open>addMessage\<close> leaves it alone. This is why the sequencer
  appends each assistant message to the store and to its working transcript separately.
\<close>

definition getHistory :: "'p world \<Rightarrow> string \<Rightarrow> message list" where
  "getHistory w sid = (case sessions w sid of None \<Rightarrow> [] | Some h \<Rightarrow> h)"

section \<open>Socket, console and strings\<close>

definition emit :: "event \<Rightarrow> 'p world \<Rightarrow> 'p world" where
  "emit e w = w\<lparr>emitted := emitted w @ [e]\<rparr>"

definition console_warn :: "string \<Rightarrow> 'p world \<Rightarrow> 'p world" where
  "console_warn s w = w\<lparr>console := console w @ [ConsoleWarn s]\<rparr>"

definition console_error :: "string \<Rightarrow> js_error \<Rightarrow> 'p world \<Rightarrow> 'p world" where
  "console_error s e w = w\<lparr>console := console w @ [ConsoleError s e]\<rparr>"

text \<open>
  The white space and line terminators that \<^verbatim>\<open>String.prototype.trim\<close> removes, among
  the code units 0..255: TAB, LF, VT, FF, CR, SP and NBSP.
\<close>

definition isWhiteSpace :: "char \<Rightarrow> bool" where
  "isWhiteSpace c \<longleftrightarrow> (of_char c :: nat) \<in> {9, 10, 11, 12, 13, 32, 160}"

definition trim :: "string \<Rightarrow> string" where
  "trim s = rev (dropWhile isWhiteSpace (rev (dropWhile isWhiteSpace s)))"

definition startsWith :: "string \<Rightarrow> string \<Rightarrow> bool" where
  "startsWith s p = (take (length p) s = p)"

section \<open>The per-model step\<close>

text \<open>
  The call \<^verbatim>\<open>await generateStreamingResponse(modelId, history, parameters, onChunk)\<close>:
  the callback runs once per fragment, in order, before the call returns or throws.
\<close>

definition generateStreamingResponse ::
  "'p generator \<Rightarrow> string \<Rightarrow> message list \<Rightarrow> 'p \<Rightarrow> (string \<Rightarrow> 'p world \<Rightarrow> 'p world)
     \<Rightarrow> 'p world \<Rightarrow> gen_result \<times> 'p world" where
  "generateStreamingResponse gen ref history ps onChunk w =
     (let (chunks, res) = gen ref history ps;
          w1 = w\<lparr>invocations := invocations w @ [(ref, history, ps)]\<rparr>
      in (res, foldl (\<lambda>w' chunk. onChunk chunk w') w1 chunks))"

text \<open>
  The two template literals of \<^verbatim>\<open>processModel\<close>: the replacement for an empty answer
  and the text built from a caught error, \<^verbatim>\<open>error.message || 'An unknown error occurred'\<close>
  after the prefix.
\<close>

definition no_response_text :: "string \<Rightarrow> string" where
  "no_response_text mid =
     ''No response was generated from '' @ mid @
     ''. This could be due to an issue with the model configuration or the input provided.''"

definition error_text :: "js_error \<Rightarrow> string" where
  "error_text e =
     ''Error: '' @
     (case err_message e of
        None \<Rightarrow> ''An unknown error occurred''
      | Some m \<Rightarrow> if m = [] then ''An unknown error occurred'' else m)"

text \<open>
  \<^verbatim>\<open>!completeResponse || completeResponse.trim() === ''\<close>: true of \<^verbatim>\<open>undefined\<close>,
  of the empty string and of a string of white space.
\<close>

definition is_blank :: "string option \<Rightarrow> bool" where
  "is_blank r = (case r of None \<Rightarrow> True | Some s \<Rightarrow> s = [] \<or> trim s = [])"

definition is_error_response :: "string option \<Rightarrow> bool" where
  "is_error_response r = (case r of None \<Rightarrow> False | Some s \<Rightarrow> startsWith s ''Error:'')"

definition response_text :: "string option \<Rightarrow> string" where
  "response_text r = (case r of None \<Rightarrow> [] | Some s \<Rightarrow> s)"

text \<open>
  \<^verbatim>\<open>processModel\<close>. The promise it returns is resolved on both paths, \<open>Inr\<close> here;
  \<open>Inl\<close> would be a rejection and is never produced.
\<close>

definition processModel ::
  "'p generator \<Rightarrow> string \<Rightarrow> 'p model \<Rightarrow> message list \<Rightarrow> 'p world
     \<Rightarrow> (js_error + string) \<times> 'p world" where
  "processModel gen sid m history w =
     (case generateStreamingResponse gen (cfg_modelId (model_cfg m)) history
             (parameters (model_cfg m))
             (\<lambda>chunk. emit (ReceiveMessage (model_id m) chunk False sid (model_order m))) w of
        (Returned response, w1) \<Rightarrow>
          (let w2 = (if is_blank response \<or> is_error_response response
                     then console_warn (''Warning: Empty or error response from '' @ model_id m) w1
                     else w1);
               completeResponse = (if is_blank response then no_response_text (model_id m)
                                   else response_text response);
               w3 = (if is_blank response
                     then emit (ReceiveMessage (model_id m) completeResponse False sid
                                  (model_order m)) w2
                     else w2);
               w4 = emit (ReceiveMessage (model_id m) [] True sid (model_order m)) w3;
               w5 = addMessage sid
                      \<lparr>role = Assistant, modelId = Some (model_id m),
                       content = completeResponse\<rparr> w4
           in (Inr completeResponse, w5))
      | (Threw error, w1) \<Rightarrow>
          (let w2 = console_error (''Error processing model '' @ model_id m @ '':'') error w1;
               errorMessage = error_text error;
               w3 = emit (ReceiveMessage (model_id m) errorMessage False sid (model_order m)) w2;
               w4 = emit (ReceiveMessage (model_id m) [] True sid (model_order m)) w3
           in (Inr errorMessage, w4)))"

section \<open>The sequencer\<close>

text \<open>
  The step the sequencer awaits is a parameter of the definitions below; the source passes
  \<^verbatim>\<open>processModel\<close>, as \<open>send_message\<close> does.
\<close>

type_synonym 'p step =
  "string \<Rightarrow> 'p model \<Rightarrow> message list \<Rightarrow> 'p world \<Rightarrow> (js_error + string) \<times> 'p world"

definition models :: "'p config_models \<Rightarrow> 'p model list" where
  "models cfg =
     [\<lparr>model_id = ''deepseek'', model_cfg = deepseek cfg, model_order = 1\<rparr>,
      \<lparr>model_id = ''nova'', model_cfg = nova cfg, model_order = 2\<rparr>]"

text \<open>
  The \<^verbatim>\<open>for (const model of models)\<close> loop. It returns the working transcript
  \<^verbatim>\<open>history\<close> as the loop leaves it, or the error of the step that rejected.
\<close>

fun for_models ::
  "'p step \<Rightarrow> string \<Rightarrow> 'p model list \<Rightarrow> message list \<Rightarrow> 'p world
     \<Rightarrow> (js_error + message list) \<times> 'p world" where
  "for_models step sid [] history w = (Inr history, w)"
| "for_models step sid (m # ms) history w =
     (case step sid m history w of
        (Inl error, w1) \<Rightarrow> (Inl error, w1)
      | (Inr modelResponse, w1) \<Rightarrow>
          for_models step sid ms
            (history @ [\<lparr>role = Assistant, modelId = Some (model_id m),
                         content = modelResponse\<rparr>])
            (emit (ModelComplete (model_id m) sid (model_order m)) w1))"

definition processModelsInSequence ::
  "'p step \<Rightarrow> 'p config_models \<Rightarrow> string \<Rightarrow> message list \<Rightarrow> 'p world
     \<Rightarrow> (js_error + message list) \<times> 'p world" where
  "processModelsInSequence step cfg sid history w =
     (case for_models step sid (models cfg) history w of
        (Inr history', w1) \<Rightarrow> (Inr history', emit (AllResponsesComplete sid) w1)
      | (Inl error, w1) \<Rightarrow>
          (Inl error, console_error ''Error in model sequence processing:'' error w1))"

text \<open>The \<^verbatim>\<open>send_message\<close> handler installed by \<^verbatim>\<open>setupSocketHandlers\<close>.\<close>

definition on_send_message ::
  "'p step \<Rightarrow> 'p config_models \<Rightarrow> send_message_data \<Rightarrow> 'p world \<Rightarrow> 'p world" where
  "on_send_message step cfg data w =
     (case getById w (sessionId data) of
        None \<Rightarrow> emit (ErrorEvent ''invalid_session'' ''Invalid session ID'') w
      | Some session \<Rightarrow>
          (let w1 = addMessage (sessionId data)
                      \<lparr>role = User, modelId = None, content = data_message data\<rparr> w;
               history = getHistory w1 (sessionId data)
           in case processModelsInSequence step cfg (sessionId data) history w1 of
                (Inr history', w2) \<Rightarrow> w2
              | (Inl error, w2) \<Rightarrow>
                  emit (ErrorEvent ''model_error'' ''Error processing your message'')
                    (console_error ''Error processing message:'' error w2)))"

text \<open>The handler as the source wires it: the step is \<^verbatim>\<open>processModel\<close>.\<close>

definition send_message ::
  "'p generator \<Rightarrow> 'p config_models \<Rightarrow> send_message_data \<Rightarrow> 'p world \<Rightarrow> 'p world" where
  "send_message gen cfg data w = on_send_message (processModel gen) cfg data w"

section \<open>The promises of the step and of the sequencer\<close>

text \<open>
  \<^verbatim>\<open>processModel\<close> returns \<^verbatim>\<open>new Promise(async (resolve, reject) => ...)\<close>, and
  the sequencer and the handler are \<^verbatim>\<open>async\<close> functions that \<^verbatim>\<open>await\<close> it. This
  section follows the same three functions with the promise made explicit, for a call of
  \<^verbatim>\<open>generateStreamingResponse\<close> that may throw anything: a promise ends resolved with
  a value, rejected with a reason, or stays pending for ever, and an \<^verbatim>\<open>await\<close> of a
  pending promise never returns.
\<close>

datatype 'a promise = Resolved 'a | Rejected thrown | Pending

datatype call_result = CallReturned "string option" | CallThrew thrown

type_synonym 'p backend = "string \<Rightarrow> message list \<Rightarrow> 'p \<Rightarrow> string list \<times> call_result"

text \<open>A generator that fails with error objects only, seen as such a call.\<close>

definition backend_of :: "'p generator \<Rightarrow> 'p backend" where
  "backend_of gen ref history ps =
     (case gen ref history ps of
        (chunks, Returned r) \<Rightarrow> (chunks, CallReturned r)
      | (chunks, Threw e) \<Rightarrow> (chunks, CallThrew (ErrorObject e)))"

definition console_error_thrown :: "string \<Rightarrow> thrown \<Rightarrow> 'p world \<Rightarrow> 'p world" where
  "console_error_thrown s t w =
     (case t of
        ErrorObject e \<Rightarrow> console_error s e w
      | Nullish \<Rightarrow> w\<lparr>console := console w @ [ConsoleErrorNullish s]\<rparr>)"

definition generateStreamingResponse_call ::
  "'p backend \<Rightarrow> string \<Rightarrow> message list \<Rightarrow> 'p \<Rightarrow> (string \<Rightarrow> 'p world \<Rightarrow> 'p world)
     \<Rightarrow> 'p world \<Rightarrow> call_result \<times> 'p world" where
  "generateStreamingResponse_call b ref history ps onChunk w =
     (let (chunks, res) = b ref history ps;
          w1 = w\<lparr>invocations := invocations w @ [(ref, history, ps)]\<rparr>
      in (res, foldl (\<lambda>w' chunk. onChunk chunk w') w1 chunks))"

text \<open>
  The promise of \<^verbatim>\<open>processModel\<close>. The try block ends with \<^verbatim>\<open>resolve(completeResponse)\<close>
  and the catch block with \<^verbatim>\<open>resolve(errorMessage)\<close>; \<^verbatim>\<open>reject\<close> is never called.
  In the catch block \<^verbatim>\<open>console.error\<close> comes first; then \<^verbatim>\<open>error.message\<close> is read,
  which throws a \<^verbatim>\<open>TypeError\<close> when \<^verbatim>\<open>error\<close> is \<^verbatim>\<open>undefined\<close> or
  \<^verbatim>\<open>null\<close>. That exception leaves the \<^verbatim>\<open>async\<close> executor, whose own promise nobody
  holds, so the promise of \<^verbatim>\<open>processModel\<close> is neither resolved nor rejected.
\<close>

definition processModel_promise ::
  "'p backend \<Rightarrow> string \<Rightarrow> 'p model \<Rightarrow> message list \<Rightarrow> 'p world
     \<Rightarrow> string promise \<times> 'p world" where
  "processModel_promise b sid m history w =
     (case generateStreamingResponse_call b (cfg_modelId (model_cfg m)) history
             (parameters (model_cfg m))
             (\<lambda>chunk. emit (ReceiveMessage (model_id m) chunk False sid (model_order m))) w of
        (CallReturned response, w1) \<Rightarrow>
          (let w2 = (if is_blank response \<or> is_error_response response
                     then console_warn (''Warning: Empty or error response from '' @ model_id m) w1
                     else w1);
               completeResponse = (if is_blank response then no_response_text (model_id m)
                                   else response_text response);
               w3 = (if is_blank response
                     then emit (ReceiveMessage (model_id m) completeResponse False sid
                                  (model_order m)) w2
                     else w2);
               w4 = emit (ReceiveMessage (model_id m) [] True sid (model_order m)) w3;
               w5 = addMessage sid
                      \<lparr>role = Assistant, modelId = Some (model_id m),
                       content = completeResponse\<rparr> w4
           in (Resolved completeResponse, w5))
      | (CallThrew error, w1) \<Rightarrow>
          (let w2 = console_error_thrown (''Error processing model '' @ model_id m @ '':'')
                      error w1
           in case error of
                Nullish \<Rightarrow> (Pending, w2)
              | ErrorObject e \<Rightarrow>
                  (let errorMessage = error_text e;
                       w3 = emit (ReceiveMessage (model_id m) errorMessage False sid
                                    (model_order m)) w2;
                       w4 = emit (ReceiveMessage (model_id m) [] True sid (model_order m)) w3
                   in (Resolved errorMessage, w4))))"

text \<open>
  The loop of \<^verbatim>\<open>processModelsInSequence\<close>: \<^verbatim>\<open>await processModel(...)\<close> goes on with
  the value of a resolved promise, throws the reason of a rejected one, and never returns
  from a pending one.
\<close>

fun for_models_promise ::
  "'p backend \<Rightarrow> string \<Rightarrow> 'p model list \<Rightarrow> message list \<Rightarrow> 'p world
     \<Rightarrow> message list promise \<times> 'p world" where
  "for_models_promise b sid [] history w = (Resolved history, w)"
| "for_models_promise b sid (m # ms) history w =
     (case processModel_promise b sid m history w of
        (Resolved modelResponse, w1) \<Rightarrow>
          for_models_promise b sid ms
            (history @ [\<lparr>role = Assistant, modelId = Some (model_id m),
                         content = modelResponse\<rparr>])
            (emit (ModelComplete (model_id m) sid (model_order m)) w1)
      | (Rejected error, w1) \<Rightarrow> (Rejected error, w1)
      | (Pending, w1) \<Rightarrow> (Pending, w1))"

definition processModelsInSequence_promise ::
  "'p backend \<Rightarrow> 'p config_models \<Rightarrow> string \<Rightarrow> message list \<Rightarrow> 'p world
     \<Rightarrow> message list promise \<times> 'p world" where
  "processModelsInSequence_promise b cfg sid history w =
     (case for_models_promise b sid (models cfg) history w of
        (Resolved history', w1) \<Rightarrow> (Resolved history', emit (AllResponsesComplete sid) w1)
      | (Rejected error, w1) \<Rightarrow>
          (Rejected error,
           console_error_thrown ''Error in model sequence processing:'' error w1)
      | (Pending, w1) \<Rightarrow> (Pending, w1))"

text \<open>
  The \<^verbatim>\<open>send_message\<close> handler: its promise is resolved when the handler returns,
  also from its catch block, and pending when the sequencer never returns.
\<close>

definition on_send_message_promise ::
  "'p backend \<Rightarrow> 'p config_models \<Rightarrow> send_message_data \<Rightarrow> 'p world
     \<Rightarrow> unit promise \<times> 'p world" where
  "on_send_message_promise b cfg data w =
     (case getById w (sessionId data) of
        None \<Rightarrow> (Resolved (), emit (ErrorEvent ''invalid_session'' ''Invalid session ID'') w)
      | Some session \<Rightarrow>
          (let w1 = addMessage (sessionId data)
                      \<lparr>role = User, modelId = None, content = data_message data\<rparr> w;
               history = getHistory w1 (sessionId data)
           in case processModelsInSequence_promise b cfg (sessionId data) history w1 of
                (Resolved history', w2) \<Rightarrow> (Resolved (), w2)
              | (Rejected error, w2) \<Rightarrow>
                  (Resolved (),
                   emit (ErrorEvent ''model_error'' ''Error processing your message'')
                     (console_error_thrown ''Error processing message:'' error w2))
              | (Pending, w2) \<Rightarrow> (Pending, w2)))"

section \<open>Notation and sample inputs\<close>

text \<open>Shorthand for the object literals of the source, used in the statements below.\<close>

abbreviation chunk_event :: "string \<Rightarrow> 'p model \<Rightarrow> string \<Rightarrow> event" where
  "chunk_event sid m c \<equiv> ReceiveMessage (model_id m) c False sid (model_order m)"

abbreviation completion_event :: "string \<Rightarrow> 'p model \<Rightarrow> event" where
  "completion_event sid m \<equiv> ReceiveMessage (model_id m) [] True sid (model_order m)"

abbreviation model_complete_event :: "string \<Rightarrow> 'p model \<Rightarrow> event" where
  "model_complete_event sid m \<equiv> ModelComplete (model_id m) sid (model_order m)"

abbreviation assistant_message :: "'p model \<Rightarrow> string \<Rightarrow> message" where
  "assistant_message m txt \<equiv> \<lparr>role = Assistant, modelId = Some (model_id m), content = txt\<rparr>"

abbreviation user_message :: "string \<Rightarrow> message" where
  "user_message txt \<equiv> \<lparr>role = User, modelId = None, content = txt\<rparr>"

abbreviation call_of :: "'p model \<Rightarrow> message list \<Rightarrow> string \<times> message list \<times> 'p" where
  "call_of m history \<equiv> (cfg_modelId (model_cfg m), history, parameters (model_cfg m))"

abbreviation outcome ::
  "'p generator \<Rightarrow> 'p model \<Rightarrow> message list \<Rightarrow> string list \<times> gen_result" where
  "outcome gen m history \<equiv> gen (cfg_modelId (model_cfg m)) history (parameters (model_cfg m))"

abbreviation deepseek_model :: "'p config_models \<Rightarrow> 'p model" where
  "deepseek_model cfg \<equiv> \<lparr>model_id = ''deepseek'', model_cfg = deepseek cfg, model_order = 1\<rparr>"

abbreviation nova_model :: "'p config_models \<Rightarrow> 'p model" where
  "nova_model cfg \<equiv> \<lparr>model_id = ''nova'', model_cfg = nova cfg, model_order = 2\<rparr>"

text \<open>The \<^verbatim>\<open>receive_message\<close> events of one model within a sequence of events.\<close>

fun is_receive_message_of :: "string \<Rightarrow> event \<Rightarrow> bool" where
  "is_receive_message_of mid (ReceiveMessage i txt fin sid n) = (i = mid)"
| "is_receive_message_of mid (ErrorEvent c txt) = False"
| "is_receive_message_of mid (ModelComplete i sid n) = False"
| "is_receive_message_of mid (AllResponsesComplete sid) = False"

definition receive_messages_of :: "string \<Rightarrow> event list \<Rightarrow> event list" where
  "receive_messages_of mid evs = filter (is_receive_message_of mid) evs"

fun is_model_complete :: "event \<Rightarrow> bool" where
  "is_model_complete (ModelComplete i sid n) = True"
| "is_model_complete (ReceiveMessage i txt fin sid n) = False"
| "is_model_complete (ErrorEvent c txt) = False"
| "is_model_complete (AllResponsesComplete sid) = False"

text \<open>
  A configuration with the default backend references of the configuration module; the
  generation parameters play no part in the sequencing and are left trivial.
\<close>

definition example_config :: "unit config_models" where
  "example_config =
     \<lparr>deepseek = \<lparr>cfg_modelId = ''us.deepseek.r1-v1:0'', parameters = ()\<rparr>,
      nova = \<lparr>cfg_modelId = ''us.amazon.nova-lite-v1:0'', parameters = ()\<rparr>\<rparr>"

text \<open>A configuration that points both models at other backends.\<close>

definition custom_config :: "unit config_models" where
  "custom_config =
     \<lparr>deepseek = \<lparr>cfg_modelId = ''backend-a'', parameters = ()\<rparr>,
      nova = \<lparr>cfg_modelId = ''backend-b'', parameters = ()\<rparr>\<rparr>"

text \<open>A world whose only session is \<open>s1\<close>, with an empty transcript.\<close>

definition example_world :: "unit world" where
  "example_world =
     \<lparr>sessions = [''s1'' \<mapsto> []], emitted = [], console = [], invocations = []\<rparr>"

definition example_data :: send_message_data where
  "example_data = \<lparr>data_message = ''hi'', sessionId = ''s1''\<rparr>"

definition unknown_session_data :: send_message_data where
  "unknown_session_data = \<lparr>data_message = ''hi'', sessionId = ''s2''\<rparr>"

text \<open>
  The generators of the examples. The first answers \<open>hello\<close> for the first model and,
  for the second, \<open>hi, \<close> followed by the content of the last assistant entry of the
  transcript it is given; each answer is streamed as one fragment.
\<close>

definition last_assistant_content :: "message list \<Rightarrow> string" where
  "last_assistant_content history =
     (case filter (\<lambda>m. role m = Assistant) history of
        [] \<Rightarrow> []
      | a # as \<Rightarrow> content (last (a # as)))"

definition scenario_generator :: "unit generator" where
  "scenario_generator ref history ps =
     (if ref = ''us.deepseek.r1-v1:0'' then ([''hello''], Returned (Some ''hello''))
      else ([''hi, '' @ last_assistant_content history],
            Returned (Some (''hi, '' @ last_assistant_content history))))"

text \<open>The call for the first model throws \<^verbatim>\<open>new Error('boom')\<close>; the second answers.\<close>

definition failing_generator :: "unit generator" where
  "failing_generator ref history ps =
     (if ref = ''us.deepseek.r1-v1:0'' then ([], Threw (JsError (Some ''boom'')))
      else ([''ok''], Returned (Some ''ok'')))"

text \<open>Every call returns two spaces and streams nothing.\<close>

definition blank_generator :: "unit generator" where
  "blank_generator ref history ps = ([], Returned (Some ''  ''))"

text \<open>Every call streams and returns a text with the reserved prefix.\<close>

definition error_prefix_generator :: "unit generator" where
  "error_prefix_generator ref history ps = ([''Error: quota''], Returned (Some ''Error: quota''))"


section \<open>Basic facts\<close>

lemma addMessage_fields [simp]:
  "emitted (addMessage sid msg w) = emitted w"
  "console (addMessage sid msg w) = console w"
  "invocations (addMessage sid msg w) = invocations w"
  by (simp_all add: addMessage_def split: option.split)

lemma addMessage_existing:
  "sessions w sid = Some h \<Longrightarrow>
   sessions (addMessage sid msg w) = (sessions w)(sid \<mapsto> h @ [msg])"
  by (simp add: addMessage_def)

lemma getHistory_addMessage:
  "sessions w sid = Some h \<Longrightarrow> getHistory (addMessage sid msg w) sid = h @ [msg]"
  by (simp add: getHistory_def addMessage_def)

lemma emit_fields [simp]:
  "emitted (emit ev w) = emitted w @ [ev]"
  "sessions (emit ev w) = sessions w"
  "console (emit ev w) = console w"
  "invocations (emit ev w) = invocations w"
  by (simp_all add: emit_def)

lemma foldl_emit:
  "foldl (\<lambda>w' c. emit (f c) w') w cs = w\<lparr>emitted := emitted w @ map f cs\<rparr>"
  by (induction cs arbitrary: w) (simp_all add: emit_def)

lemma generateStreamingResponse_emit:
  "generateStreamingResponse gen ref history ps (\<lambda>c. emit (f c)) w =
     (snd (gen ref history ps),
      w\<lparr>invocations := invocations w @ [(ref, history, ps)],
        emitted := emitted w @ map f (fst (gen ref history ps))\<rparr>)"
  by (simp add: generateStreamingResponse_def foldl_emit split: prod.split)

lemma processModel_threw:
  assumes "outcome gen m history = (chunks, Threw e)"
  shows "processModel gen sid m history w =
         (Inr (error_text e),
          w\<lparr>invocations := invocations w @ [call_of m history],
            console := console w @
                       [ConsoleError (''Error processing model '' @ model_id m @ '':'') e],
            emitted := emitted w @ map (chunk_event sid m) chunks @
                       [chunk_event sid m (error_text e), completion_event sid m]\<rparr>)"
  by (simp add: processModel_def generateStreamingResponse_emit assms emit_def
      console_error_def Let_def)

lemma processModel_blank:
  assumes "outcome gen m history = (chunks, Returned r)" and "is_blank r"
  shows "processModel gen sid m history w =
         (Inr (no_response_text (model_id m)),
          addMessage sid (assistant_message m (no_response_text (model_id m)))
           (w\<lparr>invocations := invocations w @ [call_of m history],
              console := console w @
                       [ConsoleWarn (''Warning: Empty or error response from '' @ model_id m)],
              emitted := emitted w @ map (chunk_event sid m) chunks @
                       [chunk_event sid m (no_response_text (model_id m)),
                        completion_event sid m]\<rparr>))"
  by (simp add: processModel_def generateStreamingResponse_emit assms emit_def
      console_warn_def Let_def)

lemma processModel_text:
  assumes "outcome gen m history = (chunks, Returned r)" and "\<not> is_blank r"
  shows "processModel gen sid m history w =
         (Inr (response_text r),
          addMessage sid (assistant_message m (response_text r))
           (w\<lparr>invocations := invocations w @ [call_of m history],
              console := console w @
                       (if is_error_response r
                        then [ConsoleWarn (''Warning: Empty or error response from '' @ model_id m)]
                        else []),
              emitted := emitted w @ map (chunk_event sid m) chunks @
                         [completion_event sid m]\<rparr>))"
  by (simp add: processModel_def generateStreamingResponse_emit assms emit_def
      console_warn_def Let_def)

lemma dropWhile_all_iff:
  "(\<forall>c\<in>set (dropWhile P s). P c) \<longleftrightarrow> (\<forall>c\<in>set s. P c)"
proof
  assume all: "\<forall>c\<in>set (dropWhile P s). P c"
  have "dropWhile P s = []"
  proof (rule ccontr)
    assume ne: "dropWhile P s \<noteq> []"
    then have "\<not> P (hd (dropWhile P s))" by (rule hd_dropWhile)
    moreover have "hd (dropWhile P s) \<in> set (dropWhile P s)"
      using ne by (rule hd_in_set)
    ultimately show False using all by blast
  qed
  then show "\<forall>c\<in>set s. P c" by (simp only: dropWhile_eq_Nil_conv)
next
  assume "\<forall>c\<in>set s. P c"
  then show "\<forall>c\<in>set (dropWhile P s). P c"
    using set_dropWhileD by fast
qed

lemma trim_empty_iff: "trim s = [] \<longleftrightarrow> (\<forall>c\<in>set s. isWhiteSpace c)"
proof -
  have "trim s = [] \<longleftrightarrow> (\<forall>c\<in>set (dropWhile isWhiteSpace s). isWhiteSpace c)"
    unfolding trim_def by (simp only: rev_is_Nil_conv dropWhile_eq_Nil_conv set_rev)
  then show ?thesis by (simp only: dropWhile_all_iff)
qed

lemma is_blank_Some: "is_blank (Some s) \<longleftrightarrow> (\<forall>c\<in>set s. isWhiteSpace c)"
proof -
  have "s = [] \<Longrightarrow> trim s = []" by (simp add: trim_def)
  then show ?thesis
    unfolding is_blank_def by (auto simp only: option.case trim_empty_iff)
qed

lemma processModel_cases:
  obtains (threw) chunks e where "outcome gen m history = (chunks, Threw e)"
  | (blank) chunks r where "outcome gen m history = (chunks, Returned r)" "is_blank r"
  | (answered) chunks r where "outcome gen m history = (chunks, Returned r)" "\<not> is_blank r"
proof (cases "outcome gen m history")
  case (Pair chunks res)
  then show ?thesis
  proof (cases res)
    case (Returned r)
    with Pair show ?thesis by (cases "is_blank r") (simp_all add: blank answered)
  next
    case (Threw e)
    with Pair show ?thesis by (simp add: threw)
  qed
qed

lemma processModel_resolves:
  "\<exists>r w'. processModel gen sid m history w = (Inr r, w')"
proof (cases rule: processModel_cases [where gen=gen and m=m and history=history])
  case (threw chunks e)
  show ?thesis
    by (simp add: processModel_threw [where gen=gen and m=m and history=history, OF threw])
next
  case (blank chunks r)
  show ?thesis
    by (simp add: processModel_blank [where gen=gen and m=m and history=history, OF blank])
next
  case (answered chunks r)
  show ?thesis
    by (simp add: processModel_text [where gen=gen and m=m and history=history, OF answered])
qed

lemma processModel_invocations:
  "invocations (snd (processModel gen sid m history w)) = invocations w @ [call_of m history]"
proof (cases rule: processModel_cases [where gen=gen and m=m and history=history])
  case (threw chunks e)
  show ?thesis
    by (simp add: processModel_threw [where gen=gen and m=m and history=history, OF threw])
next
  case (blank chunks r)
  show ?thesis
    by (simp add: processModel_blank [where gen=gen and m=m and history=history, OF blank])
next
  case (answered chunks r)
  show ?thesis
    by (simp add: processModel_text [where gen=gen and m=m and history=history, OF answered])
qed

lemma processModel_emitted:
  "\<exists>pre. emitted (snd (processModel gen sid m history w)) =
            emitted w @ pre @ [completion_event sid m] \<and>
         (\<forall>e\<in>set pre. \<exists>t. e = chunk_event sid m t)"
proof (cases rule: processModel_cases [where gen=gen and m=m and history=history])
  case (threw chunks e)
  show ?thesis
    by (rule exI [of _ "map (chunk_event sid m) chunks @ [chunk_event sid m (error_text e)]"])
      (auto simp: processModel_threw [where gen=gen and m=m and history=history, OF threw])
next
  case (blank chunks r)
  show ?thesis
    by (rule exI [of _ "map (chunk_event sid m) chunks @
                        [chunk_event sid m (no_response_text (model_id m))]"])
      (auto simp: processModel_blank [where gen=gen and m=m and history=history, OF blank])
next
  case (answered chunks r)
  show ?thesis
    by (rule exI [of _ "map (chunk_event sid m) chunks"])
      (auto simp: processModel_text [where gen=gen and m=m and history=history, OF answered])
qed



lemma for_models_two:
  assumes "step sid m1 history w = (Inr r1, w1)"
    and "step sid m2 (history @ [assistant_message m1 r1]) (emit (model_complete_event sid m1) w1) =
         (Inr r2, w2)"
  shows "for_models step sid [m1, m2] history w =
         (Inr (history @ [assistant_message m1 r1, assistant_message m2 r2]),
          emit (model_complete_event sid m2) w2)"
  using assms by simp

lemma send_message_valid:
  assumes "sessions w (sessionId data) = Some h"
  shows "\<exists>r1 w1 r2 w2.
           processModel gen (sessionId data) (deepseek_model cfg)
             (h @ [user_message (data_message data)])
             (addMessage (sessionId data) (user_message (data_message data)) w) = (Inr r1, w1) \<and>
           processModel gen (sessionId data) (nova_model cfg)
             (h @ [user_message (data_message data), assistant_message (deepseek_model cfg) r1])
             (emit (model_complete_event (sessionId data) (deepseek_model cfg)) w1) = (Inr r2, w2) \<and>
           processModelsInSequence (processModel gen) cfg (sessionId data)
             (h @ [user_message (data_message data)])
             (addMessage (sessionId data) (user_message (data_message data)) w) =
             (Inr (h @ [user_message (data_message data),
                        assistant_message (deepseek_model cfg) r1,
                        assistant_message (nova_model cfg) r2]),
              emit (AllResponsesComplete (sessionId data))
                (emit (model_complete_event (sessionId data) (nova_model cfg)) w2)) \<and>
           send_message gen cfg data w =
             emit (AllResponsesComplete (sessionId data))
               (emit (model_complete_event (sessionId data) (nova_model cfg)) w2)"
proof -
  let ?sid = "sessionId data"
  let ?u = "user_message (data_message data)"
  obtain r1 w1 where s1:
    "processModel gen ?sid (deepseek_model cfg) (h @ [?u]) (addMessage ?sid ?u w) = (Inr r1, w1)"
    using processModel_resolves by blast
  obtain r2 w2 where s2:
    "processModel gen ?sid (nova_model cfg)
       (h @ [?u, assistant_message (deepseek_model cfg) r1])
       (emit (model_complete_event ?sid (deepseek_model cfg)) w1) = (Inr r2, w2)"
    using processModel_resolves by blast
  have seq: "processModelsInSequence (processModel gen) cfg ?sid (h @ [?u]) (addMessage ?sid ?u w) =
             (Inr (h @ [?u, assistant_message (deepseek_model cfg) r1,
                        assistant_message (nova_model cfg) r2]),
              emit (AllResponsesComplete ?sid) (emit (model_complete_event ?sid (nova_model cfg)) w2))"
    using s1 s2 unfolding processModelsInSequence_def models_def
    by (simp only: for_models_two [where step="processModel gen"] append_Cons append_Nil
        append_assoc prod.case sum.case)
  have fin: "send_message gen cfg data w =
        emit (AllResponsesComplete ?sid) (emit (model_complete_event ?sid (nova_model cfg)) w2)"
    by (simp add: send_message_def on_send_message_def getById_def getHistory_addMessage assms seq)
  from s1 s2 seq fin show ?thesis by (intro exI conjI)
qed



section \<open>Facts about the step and the sequencer\<close>

lemmas run_defs =
  send_message_def on_send_message_def processModelsInSequence_def models_def
  processModel_def generateStreamingResponse_def getById_def getHistory_def addMessage_def
  emit_def console_warn_def console_error_def is_blank_def is_error_response_def
  response_text_def error_text_def no_response_text_def trim_def isWhiteSpace_def
  startsWith_def Let_def

lemmas example_defs =
  example_config_def custom_config_def example_world_def example_data_def
  scenario_generator_def
  failing_generator_def blank_generator_def error_prefix_generator_def
  last_assistant_content_def

lemma startsWith_not_blank:
  assumes "startsWith s ''Error:''"
  shows "\<not> is_blank (Some s)"
proof -
  have "set (take (length ''Error:'') s) \<subseteq> set s" by (rule set_take_subset)
  moreover have "take (length ''Error:'') s = ''Error:''"
    using assms by (simp only: startsWith_def)
  ultimately have "set ''Error:'' \<subseteq> set s" by (simp only:)
  then have "CHR ''E'' \<in> set s" by simp
  moreover have "\<not> isWhiteSpace (CHR ''E'')" by (simp add: isWhiteSpace_def)
  ultimately show ?thesis unfolding is_blank_Some by blast
qed

lemma send_message_events:
  assumes "sessions w (sessionId data) = Some h"
  shows "\<exists>pre1 pre2.
           emitted (send_message gen cfg data w) =
             emitted w @ pre1 @
             [completion_event (sessionId data) (deepseek_model cfg),
              model_complete_event (sessionId data) (deepseek_model cfg)] @ pre2 @
             [completion_event (sessionId data) (nova_model cfg),
              model_complete_event (sessionId data) (nova_model cfg),
              AllResponsesComplete (sessionId data)] \<and>
           (\<forall>e\<in>set pre1. \<exists>t. e = chunk_event (sessionId data) (deepseek_model cfg) t) \<and>
           (\<forall>e\<in>set pre2. \<exists>t. e = chunk_event (sessionId data) (nova_model cfg) t)"
proof -
  let ?sid = "sessionId data"
  let ?u = "user_message (data_message data)"
  let ?d = "deepseek_model cfg"
  let ?n = "nova_model cfg"
  from send_message_valid [OF assms, of gen cfg] obtain r1 w1 r2 w2 where
    s1: "processModel gen ?sid ?d (h @ [?u]) (addMessage ?sid ?u w) = (Inr r1, w1)" and
    s2: "processModel gen ?sid ?n (h @ [?u, assistant_message ?d r1])
           (emit (model_complete_event ?sid ?d) w1) = (Inr r2, w2)" and
    fin: "send_message gen cfg data w =
            emit (AllResponsesComplete ?sid) (emit (model_complete_event ?sid ?n) w2)"
    by blast
  from processModel_emitted [of gen ?sid ?d "h @ [?u]" "addMessage ?sid ?u w"]
  obtain pre1 where e1: "emitted w1 = emitted w @ pre1 @ [completion_event ?sid ?d]"
    and p1: "\<forall>e\<in>set pre1. \<exists>t. e = chunk_event ?sid ?d t"
    unfolding s1 by auto
  from processModel_emitted [of gen ?sid ?n "h @ [?u, assistant_message ?d r1]"
      "emit (model_complete_event ?sid ?d) w1"]
  obtain pre2 where e2: "emitted w2 =
      emitted w1 @ [model_complete_event ?sid ?d] @ pre2 @ [completion_event ?sid ?n]"
    and p2: "\<forall>e\<in>set pre2. \<exists>t. e = chunk_event ?sid ?n t"
    unfolding s2 by auto
  have "emitted (send_message gen cfg data w) =
          emitted w @ pre1 @ [completion_event ?sid ?d, model_complete_event ?sid ?d] @ pre2 @
          [completion_event ?sid ?n, model_complete_event ?sid ?n, AllResponsesComplete ?sid]"
    unfolding fin by (simp add: e2 e1)
  with p1 p2 show ?thesis by blast
qed

lemma receive_messages_of_chunks:
  assumes "\<forall>e\<in>set pre. \<exists>t. e = ReceiveMessage i t False sid n"
  shows "receive_messages_of mid pre = (if i = mid then pre else [])"
  using assms unfolding receive_messages_of_def
  by (induction pre) auto

lemma receive_messages_of_append:
  "receive_messages_of mid (xs @ ys) = receive_messages_of mid xs @ receive_messages_of mid ys"
  by (simp add: receive_messages_of_def)

lemma send_message_invocations:
  assumes "sessions w (sessionId data) = Some h"
  shows "\<exists>r1 w1.
           processModel gen (sessionId data) (deepseek_model cfg)
             (h @ [user_message (data_message data)])
             (addMessage (sessionId data) (user_message (data_message data)) w) = (Inr r1, w1) \<and>
           invocations (send_message gen cfg data w) =
             invocations w @
             [call_of (deepseek_model cfg) (h @ [user_message (data_message data)]),
              call_of (nova_model cfg)
                (h @ [user_message (data_message data),
                      assistant_message (deepseek_model cfg) r1])]"
proof -
  let ?sid = "sessionId data"
  let ?u = "user_message (data_message data)"
  let ?d = "deepseek_model cfg"
  let ?n = "nova_model cfg"
  from send_message_valid [OF assms, of gen cfg] obtain r1 w1 r2 w2 where
    s1: "processModel gen ?sid ?d (h @ [?u]) (addMessage ?sid ?u w) = (Inr r1, w1)" and
    s2: "processModel gen ?sid ?n (h @ [?u, assistant_message ?d r1])
           (emit (model_complete_event ?sid ?d) w1) = (Inr r2, w2)" and
    fin: "send_message gen cfg data w =
            emit (AllResponsesComplete ?sid) (emit (model_complete_event ?sid ?n) w2)"
    by blast
  have i1: "invocations w1 = invocations w @ [call_of ?d (h @ [?u])]"
    using processModel_invocations [of gen ?sid ?d "h @ [?u]" "addMessage ?sid ?u w"]
    unfolding s1 by simp
  have i2: "invocations w2 =
              invocations w1 @ [call_of ?n (h @ [?u, assistant_message ?d r1])]"
    using processModel_invocations [of gen ?sid ?n "h @ [?u, assistant_message ?d r1]"
        "emit (model_complete_event ?sid ?d) w1"]
    unfolding s2 by simp
  have "invocations (send_message gen cfg data w) =
          invocations w @ [call_of ?d (h @ [?u]),
                           call_of ?n (h @ [?u, assistant_message ?d r1])]"
    unfolding fin by (simp add: i2 i1)
  with s1 show ?thesis by blast
qed

section \<open>Facts about the promises\<close>

lemma generateStreamingResponse_call_backend_of:
  "generateStreamingResponse_call (backend_of gen) ref history ps onChunk w =
     (case generateStreamingResponse gen ref history ps onChunk w of
        (Returned r, w1) \<Rightarrow> (CallReturned r, w1)
      | (Threw e, w1) \<Rightarrow> (CallThrew (ErrorObject e), w1))"
  by (simp add: generateStreamingResponse_call_def generateStreamingResponse_def backend_of_def
      split: prod.split gen_result.split)

lemma processModel_promise_backend_of:
  "processModel_promise (backend_of gen) sid m history w =
     (case processModel gen sid m history w of
        (Inr r, w1) \<Rightarrow> (Resolved r, w1)
      | (Inl e, w1) \<Rightarrow> (Rejected (ErrorObject e), w1))"
  by (simp add: processModel_promise_def processModel_def
      generateStreamingResponse_call_backend_of console_error_thrown_def Let_def
      split: prod.split gen_result.split)

lemma for_models_promise_backend_of:
  "for_models_promise (backend_of gen) sid ms history w =
     (case for_models (processModel gen) sid ms history w of
        (Inr history1, w1) \<Rightarrow> (Resolved history1, w1)
      | (Inl e, w1) \<Rightarrow> (Rejected (ErrorObject e), w1))"
proof (induction ms arbitrary: history w)
  case Nil
  show ?case by simp
next
  case (Cons m ms)
  obtain r w1 where step: "processModel gen sid m history w = (Inr r, w1)"
    using processModel_resolves by blast
  show ?case
    by (simp add: processModel_promise_backend_of step Cons.IH)
qed

lemma on_send_message_promise_backend_of:
  "on_send_message_promise (backend_of gen) cfg data w =
     (Resolved (), send_message gen cfg data w)"
  by (simp add: on_send_message_promise_def send_message_def on_send_message_def
      processModelsInSequence_promise_def processModelsInSequence_def
      for_models_promise_backend_of console_error_thrown_def Let_def
      split: option.split prod.split sum.split)




section \<open>Claims\<close>

text \<open>
  C1. Specified: every model step, whether the generator succeeds or its failure is
  recovered inside the step, leaves its assistant message both in the session store and in
  the working transcript, so that one send adds one user message and one assistant message
  per model to the store. The recovery path departs from this: the catch block of
  \<^verbatim>\<open>processModel\<close> resolves with the error text without calling
  \<^verbatim>\<open>Session.addMessage\<close>, which the other path does. When the generator throws for the
  first model and answers \<open>ok\<close> for the second, the store ends with the user message and
  the second model's answer only, while the working transcript also holds the first
  model's \<open>Error: boom\<close>.
\<close>

theorem failed_step_missing_from_store:
  "sessions (send_message failing_generator example_config example_data example_world) ''s1'' =
     Some [\<lparr>role = User, modelId = None, content = ''hi''\<rparr>,
           \<lparr>role = Assistant, modelId = Some ''nova'', content = ''ok''\<rparr>] \<and>
   fst (processModelsInSequence (processModel failing_generator) example_config ''s1''
          [\<lparr>role = User, modelId = None, content = ''hi''\<rparr>]
          (addMessage ''s1'' \<lparr>role = User, modelId = None, content = ''hi''\<rparr> example_world)) =
     Inr [\<lparr>role = User, modelId = None, content = ''hi''\<rparr>,
          \<lparr>role = Assistant, modelId = Some ''deepseek'', content = ''Error: boom''\<rparr>,
          \<lparr>role = Assistant, modelId = Some ''nova'', content = ''ok''\<rparr>]"
proof (intro conjI)
  show "sessions (send_message failing_generator example_config example_data example_world)
          ''s1'' =
     Some [\<lparr>role = User, modelId = None, content = ''hi''\<rparr>,
           \<lparr>role = Assistant, modelId = Some ''nova'', content = ''ok''\<rparr>]"
    by (simp add: run_defs example_defs)
  show "fst (processModelsInSequence (processModel failing_generator) example_config ''s1''
          [\<lparr>role = User, modelId = None, content = ''hi''\<rparr>]
          (addMessage ''s1'' \<lparr>role = User, modelId = None, content = ''hi''\<rparr> example_world)) =
     Inr [\<lparr>role = User, modelId = None, content = ''hi''\<rparr>,
          \<lparr>role = Assistant, modelId = Some ''deepseek'', content = ''Error: boom''\<rparr>,
          \<lparr>role = Assistant, modelId = Some ''nova'', content = ''ok''\<rparr>]"
    by (simp add: run_defs example_defs)
qed

text \<open>
  C2. A \<^verbatim>\<open>send_message\<close> whose session id is unknown to the session store emits
  exactly one \<^verbatim>\<open>error\<close> event with code \<^verbatim>\<open>invalid_session\<close> and nothing else: the
  store is not touched, no generator is called and nothing is logged.
\<close>

theorem unknown_session_rejected:
  assumes "sessions w (sessionId data) = None"
  shows "emitted (send_message gen cfg data w) =
           emitted w @ [ErrorEvent ''invalid_session'' ''Invalid session ID''] \<and>
         sessions (send_message gen cfg data w) = sessions w \<and>
         invocations (send_message gen cfg data w) = invocations w \<and>
         console (send_message gen cfg data w) = console w"
  using assms by (simp add: send_message_def on_send_message_def getById_def)

theorem unknown_session_rejected_witness:
  "sessions example_world (sessionId unknown_session_data) = None \<and>
   emitted (send_message scenario_generator example_config unknown_session_data example_world) =
     [ErrorEvent ''invalid_session'' ''Invalid session ID''] \<and>
   sessions (send_message scenario_generator example_config unknown_session_data example_world) =
     sessions example_world \<and>
   invocations (send_message scenario_generator example_config unknown_session_data
     example_world) = []"
proof -
  have unknown: "sessions example_world (sessionId unknown_session_data) = None"
    by (simp add: example_world_def unknown_session_data_def)
  have empty: "emitted example_world = []" "invocations example_world = []"
    by (simp_all add: example_world_def)
  show ?thesis
    using unknown_session_rejected [OF unknown, of scenario_generator example_config]
    by (simp add: unknown empty)
qed

text \<open>
  C3. When the generator call throws, the step resolves with the text \<open>Error: \<close> followed
  by the message of the thrown error, or by \<open>An unknown error occurred\<close> when the error
  has no message or an empty one. After the fragments streamed before the failure the step
  emits that text as a chunk with completion flag false and then the terminal chunk with
  empty text and completion flag true, and the loop goes on to the remaining descriptors
  with the text appended to the working transcript.
\<close>

theorem generator_failure_recovered:
  assumes "outcome gen m history = (chunks, Threw e)"
  shows "processModel gen sid m history w =
           (Inr (error_text e),
            w\<lparr>invocations := invocations w @ [call_of m history],
              console := console w @
                [ConsoleError (''Error processing model '' @ model_id m @ '':'') e],
              emitted := emitted w @ map (chunk_event sid m) chunks @
                [chunk_event sid m (error_text e), completion_event sid m]\<rparr>) \<and>
         (\<forall>reason. err_message e = Some reason \<and> reason \<noteq> [] \<longrightarrow>
            error_text e = ''Error: '' @ reason) \<and>
         (err_message e = None \<or> err_message e = Some [] \<longrightarrow>
            error_text e = ''Error: An unknown error occurred'') \<and>
         for_models (processModel gen) sid (m # ms) history w =
           for_models (processModel gen) sid ms
             (history @ [assistant_message m (error_text e)])
             (emit (model_complete_event sid m) (snd (processModel gen sid m history w)))"
proof -
  note step = processModel_threw [where gen=gen and m=m and history=history, OF assms]
  have reason_eq: "(\<forall>reason. err_message e = Some reason \<and> reason \<noteq> [] \<longrightarrow>
            error_text e = ''Error: '' @ reason) \<and>
         (err_message e = None \<or> err_message e = Some [] \<longrightarrow>
            error_text e = ''Error: An unknown error occurred'')"
    by (auto simp: error_text_def)
  have "for_models (processModel gen) sid (m # ms) history w =
           for_models (processModel gen) sid ms
             (history @ [assistant_message m (error_text e)])
             (emit (model_complete_event sid m) (snd (processModel gen sid m history w)))"
    by (simp add: step)
  with step reason_eq show ?thesis by (simp only: simp_thms)
qed

theorem generator_failure_recovered_witness:
  "outcome failing_generator (deepseek_model example_config) [user_message ''hi''] =
     ([], Threw (JsError (Some ''boom''))) \<and>
   fst (processModel failing_generator ''s1'' (deepseek_model example_config)
          [user_message ''hi''] example_world) = Inr ''Error: boom'' \<and>
   emitted (snd (processModel failing_generator ''s1'' (deepseek_model example_config)
          [user_message ''hi''] example_world)) =
     [ReceiveMessage ''deepseek'' ''Error: boom'' False ''s1'' 1,
      ReceiveMessage ''deepseek'' [] True ''s1'' 1]"
proof -
  have thrown: "outcome failing_generator (deepseek_model example_config) [user_message ''hi''] =
     ([], Threw (JsError (Some ''boom'')))"
    by (simp add: failing_generator_def example_config_def)
  have boom: "error_text (JsError (Some ''boom'')) = ''Error: boom''"
    by (simp add: error_text_def)
  note step = generator_failure_recovered [where gen=failing_generator
        and m="deepseek_model example_config" and history="[user_message ''hi'']"
        and sid="''s1''" and w=example_world and ms="[]", OF thrown, THEN conjunct1]
  show ?thesis
    unfolding step thrown by (simp add: boom example_world_def)
qed

text \<open>
  C4. Whatever the generator does, the events a step emits are chunks of its model with
  completion flag false followed by one chunk with empty text and completion flag true.
  Within one run on a valid session, the \<^verbatim>\<open>receive_message\<close> events of each model of
  the list therefore end with that terminal chunk, and no event before it carries the
  completion flag.
\<close>

theorem terminal_chunk_is_last:
  "(\<exists>pre. emitted (snd (processModel gen sid m history w)) =
            emitted w @ pre @ [ReceiveMessage (model_id m) [] True sid (model_order m)] \<and>
          (\<forall>e\<in>set pre. \<exists>t. e = ReceiveMessage (model_id m) t False sid (model_order m))) \<and>
   (sessions w (sessionId data) = Some h \<longrightarrow>
      (\<forall>m\<in>set (models cfg).
         \<exists>pre. receive_messages_of (model_id m)
                 (drop (length (emitted w)) (emitted (send_message gen cfg data w))) =
               pre @ [ReceiveMessage (model_id m) [] True (sessionId data) (model_order m)] \<and>
               (\<forall>e\<in>set pre. \<exists>t.
                  e = ReceiveMessage (model_id m) t False (sessionId data) (model_order m))))"
proof (intro conjI impI)
  show "\<exists>pre. emitted (snd (processModel gen sid m history w)) =
            emitted w @ pre @ [ReceiveMessage (model_id m) [] True sid (model_order m)] \<and>
          (\<forall>e\<in>set pre. \<exists>t. e = ReceiveMessage (model_id m) t False sid (model_order m))"
    by (rule processModel_emitted)
next
  let ?sid = "sessionId data"
  let ?d = "deepseek_model cfg"
  let ?n = "nova_model cfg"
  assume valid: "sessions w ?sid = Some h"
  from send_message_events [OF valid, of gen cfg] obtain pre1 pre2 where
    ev: "emitted (send_message gen cfg data w) =
           emitted w @ pre1 @ [completion_event ?sid ?d, model_complete_event ?sid ?d] @ pre2 @
           [completion_event ?sid ?n, model_complete_event ?sid ?n, AllResponsesComplete ?sid]"
    and p1: "\<forall>e\<in>set pre1. \<exists>t. e = chunk_event ?sid ?d t"
    and p2: "\<forall>e\<in>set pre2. \<exists>t. e = chunk_event ?sid ?n t"
    by blast
  have new: "drop (length (emitted w)) (emitted (send_message gen cfg data w)) =
           pre1 @ [completion_event ?sid ?d, model_complete_event ?sid ?d] @ pre2 @
           [completion_event ?sid ?n, model_complete_event ?sid ?n, AllResponsesComplete ?sid]"
    unfolding ev by simp
  have d: "receive_messages_of ''deepseek''
             (drop (length (emitted w)) (emitted (send_message gen cfg data w))) =
           pre1 @ [completion_event ?sid ?d]"
    unfolding new receive_messages_of_append
    using receive_messages_of_chunks [where mid="''deepseek''", OF p1]
      receive_messages_of_chunks [where mid="''deepseek''", OF p2]
    by (simp add: receive_messages_of_def)
  have n: "receive_messages_of ''nova''
             (drop (length (emitted w)) (emitted (send_message gen cfg data w))) =
           pre2 @ [completion_event ?sid ?n]"
    unfolding new receive_messages_of_append
    using receive_messages_of_chunks [where mid="''nova''", OF p1]
      receive_messages_of_chunks [where mid="''nova''", OF p2]
    by (simp add: receive_messages_of_def)
  show "\<forall>m\<in>set (models cfg).
         \<exists>pre. receive_messages_of (model_id m)
                 (drop (length (emitted w)) (emitted (send_message gen cfg data w))) =
               pre @ [ReceiveMessage (model_id m) [] True ?sid (model_order m)] \<and>
               (\<forall>e\<in>set pre. \<exists>t.
                  e = ReceiveMessage (model_id m) t False ?sid (model_order m))"
    using d n p1 p2 by (simp add: models_def)
qed

theorem terminal_chunk_is_last_witness:
  "sessions example_world (sessionId example_data) = Some [] \<and>
   receive_messages_of ''deepseek''
     (emitted (send_message scenario_generator example_config example_data example_world)) =
     [ReceiveMessage ''deepseek'' ''hello'' False ''s1'' 1,
      ReceiveMessage ''deepseek'' [] True ''s1'' 1] \<and>
   receive_messages_of ''nova''
     (emitted (send_message scenario_generator example_config example_data example_world)) =
     [ReceiveMessage ''nova'' ''hi, hello'' False ''s1'' 2,
      ReceiveMessage ''nova'' [] True ''s1'' 2]"
proof -
  have valid: "sessions example_world (sessionId example_data) = Some []"
    by (simp add: example_world_def example_data_def)
  have run: "emitted (send_message scenario_generator example_config example_data example_world) =
     [ReceiveMessage ''deepseek'' ''hello'' False ''s1'' 1,
      ReceiveMessage ''deepseek'' [] True ''s1'' 1,
      ModelComplete ''deepseek'' ''s1'' 1,
      ReceiveMessage ''nova'' ''hi, hello'' False ''s1'' 2,
      ReceiveMessage ''nova'' [] True ''s1'' 2,
      ModelComplete ''nova'' ''s1'' 2,
      AllResponsesComplete ''s1'']"
    by (simp add: run_defs example_defs)
  show ?thesis
    using terminal_chunk_is_last [where gen=scenario_generator and cfg=example_config
        and data=example_data and w=example_world and h="[]", THEN conjunct2, rule_format,
        OF valid]
    unfolding run by (simp add: valid receive_messages_of_def)
qed

text \<open>
  C5. When the generator returns an empty string or a string of white space, the step
  replaces it by the fixed diagnostic text, which contains the identifier of the model,
  emits that text as one more chunk with completion flag false and then the terminal chunk,
  stores it as the assistant message of the session, resolves with it, and the loop goes on
  to the remaining descriptors.
\<close>

theorem empty_response_placeholder:
  assumes "outcome gen m history = (chunks, Returned (Some s))"
    and "\<forall>c\<in>set s. isWhiteSpace c"
  shows "processModel gen sid m history w =
           (Inr (no_response_text (model_id m)),
            addMessage sid (assistant_message m (no_response_text (model_id m)))
              (w\<lparr>invocations := invocations w @ [call_of m history],
                 console := console w @
                   [ConsoleWarn (''Warning: Empty or error response from '' @ model_id m)],
                 emitted := emitted w @ map (chunk_event sid m) chunks @
                   [chunk_event sid m (no_response_text (model_id m)),
                    completion_event sid m]\<rparr>)) \<and>
         sublist (model_id m) (no_response_text (model_id m)) \<and>
         (sessions w sid = Some h \<longrightarrow>
            sessions (snd (processModel gen sid m history w)) sid =
              Some (h @ [assistant_message m (no_response_text (model_id m))])) \<and>
         for_models (processModel gen) sid (m # ms) history w =
           for_models (processModel gen) sid ms
             (history @ [assistant_message m (no_response_text (model_id m))])
             (emit (model_complete_event sid m) (snd (processModel gen sid m history w)))"
proof -
  have blank: "is_blank (Some s)"
    using assms(2) by (simp only: is_blank_Some)
  note step = processModel_blank [where gen=gen and m=m and history=history, OF assms(1) blank]
  have named: "sublist (model_id m) (no_response_text (model_id m))"
    unfolding no_response_text_def by (rule sublist_appendI)
  have stored: "sessions w sid = Some h \<longrightarrow>
            sessions (snd (processModel gen sid m history w)) sid =
              Some (h @ [assistant_message m (no_response_text (model_id m))])"
    unfolding step by (simp add: addMessage_def)
  have "for_models (processModel gen) sid (m # ms) history w =
           for_models (processModel gen) sid ms
             (history @ [assistant_message m (no_response_text (model_id m))])
             (emit (model_complete_event sid m) (snd (processModel gen sid m history w)))"
    by (simp add: step)
  with step named stored show ?thesis by (simp only: simp_thms)
qed

theorem empty_response_placeholder_witness:
  "outcome blank_generator (nova_model example_config) [user_message ''hi''] =
     ([], Returned (Some ''  '')) \<and>
   list_all isWhiteSpace ''  '' \<and>
   fst (processModel blank_generator ''s1'' (nova_model example_config)
          [user_message ''hi''] example_world) = Inr (no_response_text ''nova'') \<and>
   emitted (snd (processModel blank_generator ''s1'' (nova_model example_config)
          [user_message ''hi''] example_world)) =
     [ReceiveMessage ''nova'' (no_response_text ''nova'') False ''s1'' 2,
      ReceiveMessage ''nova'' [] True ''s1'' 2] \<and>
   sessions (snd (processModel blank_generator ''s1'' (nova_model example_config)
          [user_message ''hi''] example_world)) ''s1'' =
     Some [\<lparr>role = Assistant, modelId = Some ''nova'', content = no_response_text ''nova''\<rparr>]"
proof -
  have returned: "outcome blank_generator (nova_model example_config) [user_message ''hi''] =
     ([], Returned (Some ''  ''))"
    by (simp add: blank_generator_def)
  have spaces: "\<forall>c\<in>set ''  ''. isWhiteSpace c"
    by (simp add: isWhiteSpace_def)
  note step = empty_response_placeholder [where gen=blank_generator
        and m="nova_model example_config" and history="[user_message ''hi'']"
        and sid="''s1''" and w=example_world and ms="[]" and h="[]",
        OF returned spaces, THEN conjunct1]
  show ?thesis
    unfolding step returned
    by (simp add: example_world_def addMessage_def isWhiteSpace_def)
qed

text \<open>
  C6. When the generator returns a text that starts with \<open>Error:\<close>, the step keeps the
  text as it is: it resolves with it and stores it as the assistant message, emits nothing
  beyond the streamed fragments and the terminal chunk, and only logs a warning.
\<close>

theorem error_prefixed_response_kept:
  assumes "outcome gen m history = (chunks, Returned (Some s))"
    and "startsWith s ''Error:''"
  shows "processModel gen sid m history w =
           (Inr s,
            addMessage sid (assistant_message m s)
              (w\<lparr>invocations := invocations w @ [call_of m history],
                 console := console w @
                   [ConsoleWarn (''Warning: Empty or error response from '' @ model_id m)],
                 emitted := emitted w @ map (chunk_event sid m) chunks @
                   [completion_event sid m]\<rparr>)) \<and>
         (sessions w sid = Some h \<longrightarrow>
            sessions (snd (processModel gen sid m history w)) sid =
              Some (h @ [assistant_message m s]))"
proof -
  have text_given: "\<not> is_blank (Some s)"
    using assms(2) by (rule startsWith_not_blank)
  have flagged: "is_error_response (Some s)"
    using assms(2) by (simp add: is_error_response_def)
  have step: "processModel gen sid m history w =
           (Inr s,
            addMessage sid (assistant_message m s)
              (w\<lparr>invocations := invocations w @ [call_of m history],
                 console := console w @
                   [ConsoleWarn (''Warning: Empty or error response from '' @ model_id m)],
                 emitted := emitted w @ map (chunk_event sid m) chunks @
                   [completion_event sid m]\<rparr>))"
    unfolding processModel_text [where gen=gen and m=m and history=history,
        OF assms(1) text_given]
    by (simp add: flagged response_text_def)
  have "sessions w sid = Some h \<longrightarrow>
            sessions (snd (processModel gen sid m history w)) sid =
              Some (h @ [assistant_message m s])"
    unfolding step by (simp add: addMessage_def)
  with step show ?thesis by (simp only: simp_thms)
qed

theorem error_prefixed_response_kept_witness:
  "outcome error_prefix_generator (deepseek_model example_config) [user_message ''hi''] =
     ([''Error: quota''], Returned (Some ''Error: quota'')) \<and>
   startsWith ''Error: quota'' ''Error:'' \<and>
   fst (processModel error_prefix_generator ''s1'' (deepseek_model example_config)
          [user_message ''hi''] example_world) = Inr ''Error: quota'' \<and>
   emitted (snd (processModel error_prefix_generator ''s1'' (deepseek_model example_config)
          [user_message ''hi''] example_world)) =
     [ReceiveMessage ''deepseek'' ''Error: quota'' False ''s1'' 1,
      ReceiveMessage ''deepseek'' [] True ''s1'' 1] \<and>
   sessions (snd (processModel error_prefix_generator ''s1'' (deepseek_model example_config)
          [user_message ''hi''] example_world)) ''s1'' =
     Some [\<lparr>role = Assistant, modelId = Some ''deepseek'', content = ''Error: quota''\<rparr>]"
proof -
  have returned:
    "outcome error_prefix_generator (deepseek_model example_config) [user_message ''hi''] =
     ([''Error: quota''], Returned (Some ''Error: quota''))"
    by (simp add: error_prefix_generator_def)
  have prefixed: "startsWith ''Error: quota'' ''Error:''"
    by (simp add: startsWith_def)
  note step = error_prefixed_response_kept [where gen=error_prefix_generator
        and m="deepseek_model example_config" and history="[user_message ''hi'']"
        and sid="''s1''" and w=example_world and h="[]",
        OF returned prefixed, THEN conjunct1]
  show ?thesis
    unfolding step returned
    by (simp add: example_world_def addMessage_def startsWith_def)
qed

text \<open>
  C7. In a run on a valid session with stored transcript \<open>h\<close>, the generator is called
  first with \<open>h\<close> followed by the inbound user message, and then with that transcript
  followed by the assistant message holding the first step's result and nothing else; the
  first transcript is a strict prefix of the second.
\<close>

theorem transcript_seen_by_each_model:
  assumes "sessions w (sessionId data) = Some h"
  shows "\<exists>r1 w1.
           processModel gen (sessionId data) (deepseek_model cfg)
             (h @ [user_message (data_message data)])
             (addMessage (sessionId data) (user_message (data_message data)) w) = (Inr r1, w1) \<and>
           map (fst \<circ> snd)
             (drop (length (invocations w)) (invocations (send_message gen cfg data w))) =
             [h @ [user_message (data_message data)],
              h @ [user_message (data_message data),
                   \<lparr>role = Assistant, modelId = Some ''deepseek'', content = r1\<rparr>]] \<and>
           strict_prefix (h @ [user_message (data_message data)])
             (h @ [user_message (data_message data),
                   \<lparr>role = Assistant, modelId = Some ''deepseek'', content = r1\<rparr>])"
proof -
  from send_message_invocations [OF assms, of gen cfg] obtain r1 w1 where
    s1: "processModel gen (sessionId data) (deepseek_model cfg)
             (h @ [user_message (data_message data)])
             (addMessage (sessionId data) (user_message (data_message data)) w) = (Inr r1, w1)"
    and inv: "invocations (send_message gen cfg data w) =
             invocations w @
             [call_of (deepseek_model cfg) (h @ [user_message (data_message data)]),
              call_of (nova_model cfg)
                (h @ [user_message (data_message data),
                      assistant_message (deepseek_model cfg) r1])]"
    by blast
  have seen: "map (fst \<circ> snd)
             (drop (length (invocations w)) (invocations (send_message gen cfg data w))) =
             [h @ [user_message (data_message data)],
              h @ [user_message (data_message data),
                   \<lparr>role = Assistant, modelId = Some ''deepseek'', content = r1\<rparr>]]"
    unfolding inv by simp
  have grows: "strict_prefix (h @ [user_message (data_message data)])
             (h @ [user_message (data_message data),
                   \<lparr>role = Assistant, modelId = Some ''deepseek'', content = r1\<rparr>])"
    by (simp add: strict_prefix_def)
  from s1 seen grows show ?thesis by (intro exI conjI)
qed

theorem transcript_seen_by_each_model_witness:
  "sessions example_world (sessionId example_data) = Some [] \<and>
   map (fst \<circ> snd)
     (invocations (send_message scenario_generator example_config example_data example_world)) =
     [[user_message ''hi''],
      [user_message ''hi'',
       \<lparr>role = Assistant, modelId = Some ''deepseek'', content = ''hello''\<rparr>]]"
proof -
  have valid: "sessions example_world (sessionId example_data) = Some []"
    by (simp add: example_world_def example_data_def)
  have first: "processModel scenario_generator (sessionId example_data)
       (deepseek_model example_config) ([] @ [user_message (data_message example_data)])
       (addMessage (sessionId example_data) (user_message (data_message example_data))
          example_world) =
     (Inr ''hello'',
      \<lparr>sessions = [''s1'' \<mapsto> [user_message ''hi'',
           \<lparr>role = Assistant, modelId = Some ''deepseek'', content = ''hello''\<rparr>]],
        emitted = [ReceiveMessage ''deepseek'' ''hello'' False ''s1'' 1,
                   ReceiveMessage ''deepseek'' [] True ''s1'' 1],
        console = [],
        invocations = [(''us.deepseek.r1-v1:0'', [user_message ''hi''], ())]\<rparr>)"
    by (simp add: run_defs example_defs)
  have start: "invocations example_world = []"
    by (simp add: example_world_def)
  show ?thesis
    using transcript_seen_by_each_model [OF valid, of scenario_generator example_config]
    unfolding first by (simp add: start example_data_def example_world_def)
qed

text \<open>
  C8. In a run on a valid session the events come model by model: the chunks of
  \<open>deepseek\<close>, its terminal chunk and its \<^verbatim>\<open>model_complete\<close>, then the same for
  \<open>nova\<close>, then a single \<^verbatim>\<open>all_responses_complete\<close> carrying the session id. When
  the first model answers \<open>hello\<close> and the second answers \<open>hi, \<close> followed by the last
  assistant content, sending \<open>hi\<close> to the empty session \<open>s1\<close> gives the seven expected
  events and the transcript user \<open>hi\<close>, assistant \<open>hello\<close>, assistant \<open>hi, hello\<close>.
\<close>

theorem events_ordered_per_model:
  "(sessions w (sessionId data) = Some h \<longrightarrow>
      (\<exists>pre1 pre2.
         emitted (send_message gen cfg data w) =
           emitted w @ pre1 @
           [ReceiveMessage ''deepseek'' [] True (sessionId data) 1,
            ModelComplete ''deepseek'' (sessionId data) 1] @ pre2 @
           [ReceiveMessage ''nova'' [] True (sessionId data) 2,
            ModelComplete ''nova'' (sessionId data) 2,
            AllResponsesComplete (sessionId data)] \<and>
         (\<forall>e\<in>set pre1. \<exists>t. e = ReceiveMessage ''deepseek'' t False (sessionId data) 1) \<and>
         (\<forall>e\<in>set pre2. \<exists>t. e = ReceiveMessage ''nova'' t False (sessionId data) 2))) \<and>
   emitted (send_message scenario_generator example_config example_data example_world) =
     [ReceiveMessage ''deepseek'' ''hello'' False ''s1'' 1,
      ReceiveMessage ''deepseek'' [] True ''s1'' 1,
      ModelComplete ''deepseek'' ''s1'' 1,
      ReceiveMessage ''nova'' ''hi, hello'' False ''s1'' 2,
      ReceiveMessage ''nova'' [] True ''s1'' 2,
      ModelComplete ''nova'' ''s1'' 2,
      AllResponsesComplete ''s1''] \<and>
   sessions (send_message scenario_generator example_config example_data example_world) ''s1'' =
     Some [\<lparr>role = User, modelId = None, content = ''hi''\<rparr>,
           \<lparr>role = Assistant, modelId = Some ''deepseek'', content = ''hello''\<rparr>,
           \<lparr>role = Assistant, modelId = Some ''nova'', content = ''hi, hello''\<rparr>]"
proof (intro conjI impI)
  assume valid: "sessions w (sessionId data) = Some h"
  from send_message_events [OF valid, of gen cfg]
  show "\<exists>pre1 pre2.
         emitted (send_message gen cfg data w) =
           emitted w @ pre1 @
           [ReceiveMessage ''deepseek'' [] True (sessionId data) 1,
            ModelComplete ''deepseek'' (sessionId data) 1] @ pre2 @
           [ReceiveMessage ''nova'' [] True (sessionId data) 2,
            ModelComplete ''nova'' (sessionId data) 2,
            AllResponsesComplete (sessionId data)] \<and>
         (\<forall>e\<in>set pre1. \<exists>t. e = ReceiveMessage ''deepseek'' t False (sessionId data) 1) \<and>
         (\<forall>e\<in>set pre2. \<exists>t. e = ReceiveMessage ''nova'' t False (sessionId data) 2)"
    by simp
next
  show "emitted (send_message scenario_generator example_config example_data example_world) =
     [ReceiveMessage ''deepseek'' ''hello'' False ''s1'' 1,
      ReceiveMessage ''deepseek'' [] True ''s1'' 1,
      ModelComplete ''deepseek'' ''s1'' 1,
      ReceiveMessage ''nova'' ''hi, hello'' False ''s1'' 2,
      ReceiveMessage ''nova'' [] True ''s1'' 2,
      ModelComplete ''nova'' ''s1'' 2,
      AllResponsesComplete ''s1'']"
    by (simp add: run_defs example_defs)
next
  show "sessions (send_message scenario_generator example_config example_data example_world)
          ''s1'' =
     Some [\<lparr>role = User, modelId = None, content = ''hi''\<rparr>,
           \<lparr>role = Assistant, modelId = Some ''deepseek'', content = ''hello''\<rparr>,
           \<lparr>role = Assistant, modelId = Some ''nova'', content = ''hi, hello''\<rparr>]"
    by (simp add: run_defs example_defs)
qed

theorem events_ordered_per_model_witness:
  "sessions example_world (sessionId example_data) = Some [] \<and>
   emitted (send_message error_prefix_generator example_config example_data example_world) =
     [ReceiveMessage ''deepseek'' ''Error: quota'' False ''s1'' 1,
      ReceiveMessage ''deepseek'' [] True ''s1'' 1,
      ModelComplete ''deepseek'' ''s1'' 1,
      ReceiveMessage ''nova'' ''Error: quota'' False ''s1'' 2,
      ReceiveMessage ''nova'' [] True ''s1'' 2,
      ModelComplete ''nova'' ''s1'' 2,
      AllResponsesComplete ''s1'']"
proof -
  have valid: "sessions example_world (sessionId example_data) = Some []"
    by (simp add: example_world_def example_data_def)
  have run:
    "emitted (send_message error_prefix_generator example_config example_data example_world) =
     [ReceiveMessage ''deepseek'' ''Error: quota'' False ''s1'' 1,
      ReceiveMessage ''deepseek'' [] True ''s1'' 1,
      ModelComplete ''deepseek'' ''s1'' 1,
      ReceiveMessage ''nova'' ''Error: quota'' False ''s1'' 2,
      ReceiveMessage ''nova'' [] True ''s1'' 2,
      ModelComplete ''nova'' ''s1'' 2,
      AllResponsesComplete ''s1'']"
    by (simp add: run_defs example_defs)
  show ?thesis
    using events_ordered_per_model [where gen=error_prefix_generator and cfg=example_config
        and data=example_data and w=example_world and h="[]", THEN conjunct1, rule_format,
        OF valid]
    unfolding run by (simp add: example_data_def example_world_def)
qed


text \<open>
  C10. Whatever the configuration, the list of models is \<open>deepseek\<close> with order 1 followed
  by \<open>nova\<close> with order 2, each with its own configuration entry. A run on a valid
  session calls the generator exactly twice, with the backend reference and parameters of
  \<open>deepseek\<close> and then of \<open>nova\<close>, and emits \<^verbatim>\<open>model_complete\<close> for \<open>deepseek\<close>
  and then for \<open>nova\<close>.
\<close>

theorem model_list_is_fixed:
  "map model_id (models cfg) = [''deepseek'', ''nova''] \<and>
   map model_order (models cfg) = [1, 2] \<and>
   map model_cfg (models cfg) = [deepseek cfg, nova cfg] \<and>
   (sessions w (sessionId data) = Some h \<longrightarrow>
      map fst (drop (length (invocations w)) (invocations (send_message gen cfg data w))) =
        [cfg_modelId (deepseek cfg), cfg_modelId (nova cfg)] \<and>
      map (snd \<circ> snd)
          (drop (length (invocations w)) (invocations (send_message gen cfg data w))) =
        [parameters (deepseek cfg), parameters (nova cfg)] \<and>
      filter is_model_complete
          (drop (length (emitted w)) (emitted (send_message gen cfg data w))) =
        [ModelComplete ''deepseek'' (sessionId data) 1,
         ModelComplete ''nova'' (sessionId data) 2])"
proof (intro conjI impI)
  show "map model_id (models cfg) = [''deepseek'', ''nova'']"
    by (simp add: models_def)
  show "map model_order (models cfg) = [1, 2]"
    by (simp add: models_def)
  show "map model_cfg (models cfg) = [deepseek cfg, nova cfg]"
    by (simp add: models_def)
next
  assume valid: "sessions w (sessionId data) = Some h"
  from send_message_invocations [OF valid, of gen cfg] obtain r1 w1 where
    inv: "invocations (send_message gen cfg data w) =
             invocations w @
             [call_of (deepseek_model cfg) (h @ [user_message (data_message data)]),
              call_of (nova_model cfg)
                (h @ [user_message (data_message data),
                      assistant_message (deepseek_model cfg) r1])]"
    by blast
  show "map fst (drop (length (invocations w)) (invocations (send_message gen cfg data w))) =
        [cfg_modelId (deepseek cfg), cfg_modelId (nova cfg)]"
    unfolding inv by simp
  show "map (snd \<circ> snd)
          (drop (length (invocations w)) (invocations (send_message gen cfg data w))) =
        [parameters (deepseek cfg), parameters (nova cfg)]"
    unfolding inv by simp
  from send_message_events [OF valid, of gen cfg] obtain pre1 pre2 where
    ev: "emitted (send_message gen cfg data w) =
           emitted w @ pre1 @
           [completion_event (sessionId data) (deepseek_model cfg),
            model_complete_event (sessionId data) (deepseek_model cfg)] @ pre2 @
           [completion_event (sessionId data) (nova_model cfg),
            model_complete_event (sessionId data) (nova_model cfg),
            AllResponsesComplete (sessionId data)]"
    and p1: "\<forall>e\<in>set pre1. \<exists>t. e = chunk_event (sessionId data) (deepseek_model cfg) t"
    and p2: "\<forall>e\<in>set pre2. \<exists>t. e = chunk_event (sessionId data) (nova_model cfg) t"
    by blast
  have "filter is_model_complete pre1 = []" "filter is_model_complete pre2 = []"
    using p1 p2 by (auto simp: filter_empty_conv)
  then show "filter is_model_complete
          (drop (length (emitted w)) (emitted (send_message gen cfg data w))) =
        [ModelComplete ''deepseek'' (sessionId data) 1,
         ModelComplete ''nova'' (sessionId data) 2]"
    unfolding ev by simp
qed

theorem model_list_is_fixed_witness:
  "sessions example_world (sessionId example_data) = Some [] \<and>
   map fst (invocations (send_message blank_generator custom_config example_data
     example_world)) = [''backend-a'', ''backend-b''] \<and>
   filter is_model_complete (emitted (send_message blank_generator custom_config example_data
     example_world)) =
     [ModelComplete ''deepseek'' ''s1'' 1, ModelComplete ''nova'' ''s1'' 2]"
proof -
  have valid: "sessions example_world (sessionId example_data) = Some []"
    by (simp add: example_world_def example_data_def)
  have start: "invocations example_world = []" "emitted example_world = []"
    by (simp_all add: example_world_def)
  show ?thesis
    using model_list_is_fixed [where gen=blank_generator and cfg=custom_config
        and data=example_data and w=example_world and h="[]"]
    by (simp add: start example_data_def example_world_def custom_config_def)
qed

end
